theory Spec2Isabelle
  imports Main
begin

section \<open>Enumerations of \<open>models/equipment.py\<close>\<close>

datatype ProtocolType =
  HL7 | ASTM | DICOM | POCT1_A | LIS2_A2 | MODBUS | IHE_PCD | HL7_FHIR | ISO_11073 | PROPRIETARY

datatype ConnectionType =
  NETWORK | DB25 | USB | RS232 | RS485 | BLUETOOTH | ETHERNET | WIFI

datatype CommunicationType =
  UNIDIRECTIONAL | BIDIRECTIONAL | BIDIRECTIONAL_WITH_ACK

section \<open>Python values, exceptions and string helpers\<close>

text \<open>Decimal text of an integer, as an f-string formats it.\<close>

fun str_nat :: "nat \<Rightarrow> string" where
  "str_nat n =
     (if n < 10 then [char_of (48 + n)]
      else str_nat (n div 10) @ [char_of (48 + n mod 10)])"

definition str_int :: "int \<Rightarrow> string" where
  "str_int i = (if i < 0 then CHR ''-'' # str_nat (nat (- i)) else str_nat (nat i))"

text \<open>
  Exceptions are values. Each constructor is the Python class of the exception and carries
  the argument it was raised with; \<open>HTTPException\<close> carries its status code and detail.
  \<open>OSError\<close> stands for the failures of sockets and serial ports, \<open>ParseException\<close> is the
  one of the \<open>hl7\<close> package.
\<close>

datatype exn =
    KeyError string
  | IndexError string
  | ValueError string
  | AttributeError string
  | NameError string
  | OSError string
  | ParseException string
  | HTTPException nat string

text \<open>
  \<open>str(e)\<close>: the argument; for a \<open>KeyError\<close> the argument in quotes, for an
  \<open>HTTPException\<close> the status code, a colon and the detail.
\<close>

fun exn_str :: "exn \<Rightarrow> string" where
  "exn_str (KeyError k) = [CHR 0x27] @ k @ [CHR 0x27]"
| "exn_str (IndexError s) = s"
| "exn_str (ValueError s) = s"
| "exn_str (AttributeError s) = s"
| "exn_str (NameError s) = s"
| "exn_str (OSError s) = s"
| "exn_str (ParseException s) = s"
| "exn_str (HTTPException c d) = str_nat c @ '': '' @ d"

text \<open>\<open>s.strip(chars)\<close>: drops from both ends every character that occurs in \<open>chars\<close>.\<close>

definition strip :: "string \<Rightarrow> string \<Rightarrow> string" where
  "strip chars s =
     rev (dropWhile (\<lambda>c. c \<in> set chars) (rev (dropWhile (\<lambda>c. c \<in> set chars) s)))"

text \<open>
  \<open>s.split(sep)\<close> for a separator of one character: the pieces between the occurrences of
  \<open>sep\<close>, empty pieces kept, so the result is never the empty list.
\<close>

fun split :: "char \<Rightarrow> string \<Rightarrow> string list" where
  "split sep [] = [[]]"
| "split sep (c # cs) =
     (if c = sep then [] # split sep cs
      else (case split sep cs of
              [] \<Rightarrow> [[c]]
            | w # ws \<Rightarrow> (c # w) # ws))"

text \<open>\<open>xs[i]\<close> on a list, for a non-negative literal index.\<close>

definition list_get :: "'a list \<Rightarrow> nat \<Rightarrow> exn + 'a" where
  "list_get xs i =
     (if i < length xs then Inr (xs ! i) else Inl (IndexError ''list index out of range''))"

section \<open>The canonical result of a codec (\<open>services/result_processor.py\<close>)\<close>

text \<open>
  Every \<open>process_result\<close> returns a dict with the keys \<open>message_id\<close>, \<open>message_datetime\<close>,
  \<open>patient_id\<close>, \<open>patient_name\<close> and \<open>results\<close>, the last a list of dicts. The keys
  \<open>test_name\<close> and \<open>flags\<close> are not set by every codec, hence optional.
\<close>

record ResultLine =
  test_code :: string
  test_name :: "string option"
  rl_value :: string
  units :: string
  reference_range :: string
  flags :: "string option"
  status :: string

record IncomingResult =
  message_id :: string
  message_datetime :: string
  patient_id :: string
  patient_name :: string
  results :: "ResultLine list"

section \<open>\<open>ASTMResultProcessor.process_result\<close>\<close>

record astm_header =
  h_sender :: string
  h_message_id :: string

record astm_patient =
  p_id :: string
  p_name :: string

record astm_state =
  st_header :: "astm_header option"
  st_patient :: "astm_patient option"
  st_results :: "ResultLine list"

text \<open>
  Sequencing of fallible steps: the first exception ends the computation, as a raise does.
\<close>

definition and_then :: "exn + 'a \<Rightarrow> ('a \<Rightarrow> exn + 'b) \<Rightarrow> exn + 'b" where
  "and_then x f = (case x of Inl e \<Rightarrow> Inl e | Inr v \<Rightarrow> f v)"

text \<open>
  \<open>fields[i] if len(fields) > i else ''\<close>. The index is read through \<open>list_get\<close>, so an
  unguarded read would show as an \<open>IndexError\<close>.
\<close>

definition field_or_empty :: "string list \<Rightarrow> nat \<Rightarrow> exn + string" where
  "field_or_empty flds i = (if length flds > i then list_get flds i else Inr '''')"

definition astm_header_of :: "string list \<Rightarrow> exn + astm_header" where
  "astm_header_of flds =
     and_then (field_or_empty flds 4) (\<lambda>s.
     and_then (field_or_empty flds 5) (\<lambda>m.
     Inr \<lparr>h_sender = s, h_message_id = m\<rparr>))"

definition astm_patient_of :: "string list \<Rightarrow> exn + astm_patient" where
  "astm_patient_of flds =
     and_then (field_or_empty flds 3) (\<lambda>i.
     and_then (field_or_empty flds 4) (\<lambda>n.
     Inr \<lparr>p_id = i, p_name = n\<rparr>))"

definition astm_result_of :: "string list \<Rightarrow> exn + ResultLine" where
  "astm_result_of flds =
     and_then (field_or_empty flds 2) (\<lambda>tc.
     and_then (field_or_empty flds 3) (\<lambda>v.
     and_then (field_or_empty flds 4) (\<lambda>u.
     and_then (field_or_empty flds 5) (\<lambda>rr.
     and_then (field_or_empty flds 6) (\<lambda>fl.
     and_then (field_or_empty flds 8) (\<lambda>s.
     Inr \<lparr>test_code = tc, test_name = None, rl_value = v, units = u,
          reference_range = rr, flags = Some fl, status = s\<rparr>))))))"

text \<open>
  One pass of the body of \<open>for record in records\<close>: an empty record is skipped, otherwise the
  first character selects the record type; a record of any other type changes nothing.
\<close>

definition astm_record :: "astm_state \<Rightarrow> string \<Rightarrow> exn + astm_state" where
  "astm_record st record =
     (case record of
        [] \<Rightarrow> Inr st
      | record_type # _ \<Rightarrow>
          (let flds = split CHR ''|'' record in
           if record_type = CHR ''H'' then
             and_then (astm_header_of flds) (\<lambda>h. Inr (st\<lparr>st_header := Some h\<rparr>))
           else if record_type = CHR ''P'' then
             and_then (astm_patient_of flds) (\<lambda>p. Inr (st\<lparr>st_patient := Some p\<rparr>))
           else if record_type = CHR ''R'' then
             and_then (astm_result_of flds)
               (\<lambda>r. Inr (st\<lparr>st_results := st_results st @ [r]\<rparr>))
           else Inr st))"

fun astm_records :: "astm_state \<Rightarrow> string list \<Rightarrow> exn + astm_state" where
  "astm_records st [] = Inr st"
| "astm_records st (record # records) =
     and_then (astm_record st record) (\<lambda>st'. astm_records st' records)"

definition astm_frame_chars :: string where
  "astm_frame_chars = [CHR 0x02, CHR 0x03, CHR 0x0D, CHR 0x0A]"

text \<open>
  The whole method. \<open>now\<close> is the text of \<open>datetime.now().isoformat()\<close>. Any exception of the
  body is re-raised as \<open>HTTPException(400)\<close>.
\<close>

definition ASTM_process_result :: "string \<Rightarrow> string \<Rightarrow> exn + IncomingResult" where
  "ASTM_process_result now raw_data =
     (let data = strip astm_frame_chars raw_data;
          records = split (CHR 0x0D) data
      in case astm_records \<lparr>st_header = None, st_patient = None, st_results = []\<rparr> records of
           Inl e \<Rightarrow> Inl (HTTPException 400 (''Error processing ASTM message: '' @ exn_str e))
         | Inr st \<Rightarrow>
             Inr \<lparr>message_id = (case st_header st of Some h \<Rightarrow> h_message_id h | None \<Rightarrow> ''''),
                  message_datetime = now,
                  patient_id = (case st_patient st of Some p \<Rightarrow> p_id p | None \<Rightarrow> ''''),
                  patient_name = (case st_patient st of Some p \<Rightarrow> p_name p | None \<Rightarrow> ''''),
                  results = st_results st\<rparr>)"

section \<open>\<open>send_acknowledgment\<close> of the three codecs\<close>

text \<open>
  The methods are annotated \<open>-> bool\<close>, but the HL7 and ASTM codecs return the text of the
  acknowledgment they build; the value is a boolean or a text accordingly.
\<close>

datatype ack_result = AckBool bool | AckText string

text \<open>
  \<open>ts\<close> is \<open>datetime.now().strftime('%Y%m%d%H%M%S')\<close>. The first line of the message is an
  f-string, the second (the MSA segment) is a plain string literal, braces included.
\<close>

definition HL7_send_acknowledgment :: "string \<Rightarrow> CommunicationType \<Rightarrow> string \<Rightarrow> ack_result" where
  "HL7_send_acknowledgment ts communication_type msg_id =
     (if communication_type \<noteq> BIDIRECTIONAL_WITH_ACK then AckBool True
      else AckText
        ((''MSH|^~'' @ [CHR 0x5C] @ ''&|LIS|LAB|EQP|LAB|'' @ ts @ ''||ACK|'' @ msg_id
            @ ''|P|2.5.1'' @ [CHR 0x0D])
         @ (''MSA|AA|{message_id}|Message received successfully'' @ [CHR 0x0D])))"

definition ASTM_send_acknowledgment :: "CommunicationType \<Rightarrow> string \<Rightarrow> ack_result" where
  "ASTM_send_acknowledgment communication_type msg_id =
     (if communication_type \<noteq> BIDIRECTIONAL_WITH_ACK then AckBool True
      else AckText
        ([CHR 0x02] @ ''H|'' @ [CHR 0x5C] @ ''^&|||LIS|LAB||'' @ msg_id @ ''||P|1''
           @ [CHR 0x0D, CHR 0x03, CHR 0x0D, CHR 0x0A]))"

text \<open>
  The FHIR codec posts a MessageHeader to \<open>{endpoint}/$process-message\<close>. The HTTP exchange
  is the environment's: \<open>post url identifier\<close> is the status code of the response, or the
  exception \<open>requests.post\<close> raises. The second component of the result lists the requests
  issued, as (url, response identifier).
\<close>

definition HL7FHIR_send_acknowledgment ::
  "(string \<Rightarrow> string \<Rightarrow> exn + nat) \<Rightarrow> CommunicationType \<Rightarrow> string \<Rightarrow> string
     \<Rightarrow> ack_result \<times> (string \<times> string) list" where
  "HL7FHIR_send_acknowledgment post communication_type endpoint msg_id =
     (if communication_type \<noteq> BIDIRECTIONAL_WITH_ACK then (AckBool True, [])
      else (let url = endpoint @ ''/$process-message'' in
            case post url msg_id of
              Inl e \<Rightarrow> (AckBool False, [(url, msg_id)])
            | Inr status_code \<Rightarrow> (AckBool (status_code = 200), [(url, msg_id)])))"

section \<open>\<open>ResultProcessorFactory.create_processor\<close>\<close>

datatype ResultProcessor =
    HL7ResultProcessor CommunicationType
  | ASTMResultProcessor CommunicationType
  | HL7FHIRResultProcessor CommunicationType string

fun ProtocolType_value :: "ProtocolType \<Rightarrow> string" where
  "ProtocolType_value HL7 = ''HL7''"
| "ProtocolType_value ASTM = ''ASTM''"
| "ProtocolType_value DICOM = ''DICOM''"
| "ProtocolType_value POCT1_A = ''POCT1-A''"
| "ProtocolType_value LIS2_A2 = ''LIS2-A2''"
| "ProtocolType_value MODBUS = ''MODBUS''"
| "ProtocolType_value IHE_PCD = ''IHE-PCD''"
| "ProtocolType_value HL7_FHIR = ''HL7-FHIR''"
| "ProtocolType_value ISO_11073 = ''ISO-11073''"
| "ProtocolType_value PROPRIETARY = ''PROPRIETARY''"

text \<open>
  \<open>not endpoint\<close> holds for \<open>None\<close> and for the empty string. The member of a string
  enumeration is formatted in the messages as its value.
\<close>

definition create_processor ::
  "ProtocolType \<Rightarrow> CommunicationType \<Rightarrow> string option \<Rightarrow> exn + ResultProcessor" where
  "create_processor protocol communication_type endpoint =
     (if protocol = HL7 then Inr (HL7ResultProcessor communication_type)
      else if protocol = ASTM then Inr (ASTMResultProcessor communication_type)
      else if protocol = HL7_FHIR then
        (case endpoint of
           None \<Rightarrow> Inl (ValueError ''FHIR endpoint is required for HL7-FHIR protocol'')
         | Some url \<Rightarrow>
             if url = [] then Inl (ValueError ''FHIR endpoint is required for HL7-FHIR protocol'')
             else Inr (HL7FHIRResultProcessor communication_type url))
      else Inl (ValueError (''Unsupported protocol: '' @ ProtocolType_value protocol)))"

section \<open>The \<open>hl7\<close> package\<close>

text \<open>
  \<open>HL7ResultProcessor\<close> parses with the third-party package \<open>hl7\<close> (python-hl7). What the
  codec uses of it is written out here after the package: \<open>hl7.parse\<close> with its parse plan,
  the containers, \<open>Message.segment\<close> and \<open>Message.segments\<close>, indexing, truth value and
  \<open>str\<close>. A parsed message is a \<open>Message\<close> of \<open>Segment\<close>s of \<open>Field\<close>s; a field holds
  \<open>Repetition\<close>s, a repetition \<open>Component\<close>s, and a container holds the plain text when the
  text has none of the separators of its level or below. Every container is a list and
  knows its separator.
\<close>

datatype container_kind = Message | Segment | Field | Repetition | Component

datatype hl7_item = Str string | Container container_kind string "hl7_item list"

text \<open>\<open>s.find(c, start)\<close>: the first index from \<open>start\<close> on where \<open>c\<close> stands; \<open>None\<close> for -1.\<close>

definition find_from :: "char \<Rightarrow> nat \<Rightarrow> string \<Rightarrow> nat option" where
  "find_from c start s =
     (case filter (\<lambda>i. s ! i = c) [start..<length s] of [] \<Rightarrow> None | i # _ \<Rightarrow> Some i)"

text \<open>\<open>s[i]\<close> on a text, for a non-negative literal index.\<close>

definition string_get :: "string \<Rightarrow> nat \<Rightarrow> exn + char" where
  "string_get s i =
     (if i < length s then Inr (s ! i) else Inl (IndexError ''string index out of range''))"

text \<open>\<open>s[lo:hi]\<close> where \<open>hi\<close> is the result of a \<open>find\<close>: -1 stands for the last index.\<close>

definition slice_to_found :: "string \<Rightarrow> nat \<Rightarrow> nat option \<Rightarrow> string" where
  "slice_to_found s lo hi =
     (case hi of Some k \<Rightarrow> drop lo (take k s) | None \<Rightarrow> drop lo (butlast s))"

text \<open>
  \<open>create_parse_plan\<close>: the separators of the five levels, outermost first. The carriage
  return separates segments; the others are read from the header, with defaults.
\<close>

definition create_parse_plan :: "string \<Rightarrow> exn + (container_kind \<times> char) list" where
  "create_parse_plan strmsg =
     (if take 3 strmsg \<notin> {''MSH'', ''FHS'', ''BHS''} then
        Inl (ParseException (''First segment is '' @ take 3 strmsg
                             @ '', must be one of MSH, FHS or BHS''))
      else
        and_then (string_get strmsg 3) (\<lambda>sep0.
        (let seps = slice_to_found strmsg 3 (find_from sep0 4 strmsg) in
         and_then (list_get seps 0) (\<lambda>field_sep.
         Inr [(Message, CHR 0x0D),
              (Segment, field_sep),
              (Field, if length seps > 2 then seps ! 2 else CHR ''~''),
              (Repetition, if length seps > 1 then seps ! 1 else CHR ''^''),
              (Component, if length seps > 4 then seps ! 4 else CHR ''&'')]))))"

text \<open>The results of a list comprehension: the first exception raised ends it.\<close>

fun collect :: "(exn + 'a) list \<Rightarrow> exn + 'a list" where
  "collect [] = Inr []"
| "collect (x # xs) = and_then x (\<lambda>v. and_then (collect xs) (\<lambda>vs. Inr (v # vs)))"

text \<open>
  \<open>_split\<close>. With no level left the text is returned. A text without any separator of the
  remaining levels is wrapped as it is. A segment that begins with \<open>MSH\<close> or \<open>FHS\<close> gets
  three fields first, the name, the field separator and the encoding characters, and the
  rest of its text is cut like any other.
\<close>

fun hl7_split :: "(container_kind \<times> char) list \<Rightarrow> string \<Rightarrow> exn + hl7_item" where
  "hl7_split [] text = Inr (Str text)"
| "hl7_split ((kind, sep) # plan) text =
     (if \<not> list_ex (\<lambda>s. s \<in> set text) (sep # map snd plan) then
        Inr (Container kind [sep] [Str text])
      else if kind = Segment \<and> take 3 text \<in> {''MSH'', ''FHS''} then
        and_then (string_get text 3) (\<lambda>sep0.
        (let sep_end_off = find_from sep0 4 text;
             seps = slice_to_found text 4 sep_end_off;
             rest = (case sep_end_off of Some k \<Rightarrow> drop (k + 1) text | None \<Rightarrow> text)
         in and_then
              (collect (if rest = [] then [] else map (hl7_split plan) (split sep rest)))
              (\<lambda>items.
                 Inr (Container kind [sep]
                        ([Container Field [] [Str (take 3 text)],
                          Container Field [] [Str [sep0]],
                          Container Field [sep0] [Str seps]] @ items)))))
      else
        and_then (collect (if text = [] then [] else map (hl7_split plan) (split sep text)))
          (\<lambda>items. Inr (Container kind [sep] items)))"

text \<open>The characters \<open>strip()\<close> removes, as far as they are single bytes.\<close>

definition whitespace :: string where
  "whitespace = [CHR 0x09, CHR 0x0A, CHR 0x0B, CHR 0x0C, CHR 0x0D,
                 CHR 0x1C, CHR 0x1D, CHR 0x1E, CHR 0x1F, CHR 0x20]"

text \<open>\<open>hl7.parse\<close>\<close>

definition hl7_parse :: "string \<Rightarrow> exn + hl7_item" where
  "hl7_parse lines =
     (let strmsg = strip whitespace lines in
      and_then (create_parse_plan strmsg) (\<lambda>plan. hl7_split plan strmsg))"

text \<open>\<open>x[i]\<close>: an element of a container, or the character of a text as a text.\<close>

fun hl7_getitem :: "hl7_item \<Rightarrow> nat \<Rightarrow> exn + hl7_item" where
  "hl7_getitem (Container kind sep xs) i = list_get xs i"
| "hl7_getitem (Str s) i = and_then (string_get s i) (\<lambda>c. Inr (Str [c]))"

text \<open>The truth value of \<open>x\<close> in a condition: a list or a text is true when it is not empty.\<close>

fun hl7_bool :: "hl7_item \<Rightarrow> bool" where
  "hl7_bool (Container kind sep xs) = (xs \<noteq> [])"
| "hl7_bool (Str s) = (s \<noteq> [])"

text \<open>\<open>sep.join(parts)\<close>\<close>

fun join :: "string \<Rightarrow> string list \<Rightarrow> string" where
  "join sep [] = []"
| "join sep [x] = x"
| "join sep (x # y # ys) = x @ sep @ join sep (y # ys)"

text \<open>
  \<open>str(x)\<close> for a text, a component, a repetition or a field, which is all the codec takes
  the \<open>str\<close> of: the parts joined with the separator of the container.
\<close>

fun hl7_str :: "hl7_item \<Rightarrow> string" where
  "hl7_str (Str s) = s"
| "hl7_str (Container kind sep xs) = join sep (map hl7_str xs)"

text \<open>
  The generator of \<open>Message.segments\<close>: the segments whose \<open>segment[0][0]\<close> equals the id. A
  container never equals a text.
\<close>

fun matching_segments :: "string \<Rightarrow> hl7_item list \<Rightarrow> exn + hl7_item list" where
  "matching_segments segment_id [] = Inr []"
| "matching_segments segment_id (seg # segs) =
     and_then (hl7_getitem seg 0) (\<lambda>f.
     and_then (hl7_getitem f 0) (\<lambda>n.
     and_then (matching_segments segment_id segs) (\<lambda>ms.
     Inr (if n = Str segment_id then seg # ms else ms))))"

text \<open>\<open>Message.segments\<close> raises \<open>KeyError\<close> when no segment has the id.\<close>

definition hl7_segments :: "hl7_item \<Rightarrow> string \<Rightarrow> exn + hl7_item list" where
  "hl7_segments message segment_id =
     (case message of
        Str s \<Rightarrow> Inl (AttributeError ''segments'')
      | Container kind sep segs \<Rightarrow>
          and_then (matching_segments segment_id segs) (\<lambda>ms.
          if ms = [] then Inl (KeyError (''No '' @ segment_id @ '' segments'')) else Inr ms))"

text \<open>\<open>Message.segment\<close>: the first of them.\<close>

definition hl7_segment :: "hl7_item \<Rightarrow> string \<Rightarrow> exn + hl7_item" where
  "hl7_segment message segment_id =
     and_then (hl7_segments message segment_id) (\<lambda>ms. list_get ms 0)"

section \<open>\<open>HL7ResultProcessor.process_result\<close>\<close>

text \<open>\<open>x[i][j]\<close>\<close>

definition item2 :: "hl7_item \<Rightarrow> nat \<Rightarrow> nat \<Rightarrow> exn + hl7_item" where
  "item2 x i j = and_then (hl7_getitem x i) (\<lambda>f. hl7_getitem f j)"

text \<open>\<open>str(x[i][j] if x[i][j] else '')\<close>\<close>

definition text2 :: "hl7_item \<Rightarrow> nat \<Rightarrow> nat \<Rightarrow> exn + string" where
  "text2 x i j =
     and_then (item2 x i j) (\<lambda>c.
       if hl7_bool c then and_then (item2 x i j) (\<lambda>v. Inr (hl7_str v)) else Inr '''')"

text \<open>The dict built for one OBX segment, its entries evaluated in the order written.\<close>

definition obx_result :: "hl7_item \<Rightarrow> exn + ResultLine" where
  "obx_result obx =
     and_then (text2 obx 3 0) (\<lambda>tc.
     and_then (text2 obx 3 1) (\<lambda>tn.
     and_then (text2 obx 5 0) (\<lambda>v.
     and_then (text2 obx 6 0) (\<lambda>u.
     and_then (text2 obx 7 0) (\<lambda>rr.
     and_then (text2 obx 8 0) (\<lambda>fl.
     and_then (text2 obx 11 0) (\<lambda>s.
     Inr \<lparr>test_code = tc, test_name = Some tn, rl_value = v, units = u,
          reference_range = rr, flags = Some fl, status = s\<rparr>)))))))"

text \<open>The loop \<open>for obx in message.segments('OBX')\<close>, appending one dict per segment.\<close>

fun obx_results :: "ResultLine list \<Rightarrow> hl7_item list \<Rightarrow> exn + ResultLine list" where
  "obx_results acc [] = Inr acc"
| "obx_results acc (obx # rest) =
     and_then (obx_result obx) (\<lambda>r. obx_results (acc @ [r]) rest)"

text \<open>
  The whole method: parse, read the PID segment, loop over the OBX segments, read MSH fields
  10 and 7. Any exception of the body is re-raised as \<open>HTTPException(400)\<close>.
\<close>

definition HL7_process_result :: "string \<Rightarrow> exn + IncomingResult" where
  "HL7_process_result raw_data =
     (case
        and_then (hl7_parse raw_data) (\<lambda>message.
        and_then (hl7_segment message ''PID'') (\<lambda>pid.
        and_then (text2 pid 3 0) (\<lambda>pat_id.
        and_then (text2 pid 5 0) (\<lambda>pat_name.
        and_then (hl7_segments message ''OBX'') (\<lambda>obxs.
        and_then (obx_results [] obxs) (\<lambda>rs.
        and_then (hl7_segment message ''MSH'') (\<lambda>msh.
        and_then (hl7_getitem msh 10) (\<lambda>mid.
        and_then (hl7_segment message ''MSH'') (\<lambda>msh'.
        and_then (hl7_getitem msh' 7) (\<lambda>mdt.
        Inr \<lparr>message_id = hl7_str mid, message_datetime = hl7_str mdt,
             patient_id = pat_id, patient_name = pat_name, results = rs\<rparr>))))))))))
      of Inl e \<Rightarrow> Inl (HTTPException 400 (''Error processing HL7 message: '' @ exn_str e))
       | Inr r \<Rightarrow> Inr r)"

section \<open>\<open>services/equipment_interface.py\<close>\<close>

text \<open>
  The configuration is a \<open>Dict[str, Any]\<close>. Its values are \<open>None\<close>, integers, strings and
  members of the two string enumerations; a member of a string enumeration equals the
  string that is its value.
\<close>

datatype pyval = PNone | PInt int | PStr string | PConn ConnectionType | PProto ProtocolType

fun ConnectionType_value :: "ConnectionType \<Rightarrow> string" where
  "ConnectionType_value NETWORK = ''NETWORK''"
| "ConnectionType_value DB25 = ''DB25''"
| "ConnectionType_value USB = ''USB''"
| "ConnectionType_value RS232 = ''RS232''"
| "ConnectionType_value RS485 = ''RS485''"
| "ConnectionType_value BLUETOOTH = ''BLUETOOTH''"
| "ConnectionType_value ETHERNET = ''ETHERNET''"
| "ConnectionType_value WIFI = ''WIFI''"

fun as_str :: "pyval \<Rightarrow> string option" where
  "as_str (PStr s) = Some s"
| "as_str (PConn c) = Some (ConnectionType_value c)"
| "as_str (PProto p) = Some (ProtocolType_value p)"
| "as_str PNone = None"
| "as_str (PInt i) = None"

text \<open>\<open>a == b\<close>\<close>

definition py_eq :: "pyval \<Rightarrow> pyval \<Rightarrow> bool" where
  "py_eq a b =
     (case (as_str a, as_str b) of
        (Some x, Some y) \<Rightarrow> x = y
      | _ \<Rightarrow> a = b)"

type_synonym config = "string \<rightharpoonup> pyval"

text \<open>\<open>config[key]\<close> and \<open>config.get(key, default)\<close>\<close>

definition dict_item :: "config \<Rightarrow> string \<Rightarrow> exn + pyval" where
  "dict_item d k = (case d k of None \<Rightarrow> Inl (KeyError k) | Some v \<Rightarrow> Inr v)"

definition dict_get :: "config \<Rightarrow> string \<Rightarrow> pyval \<Rightarrow> pyval" where
  "dict_get d k dflt = (case d k of None \<Rightarrow> dflt | Some v \<Rightarrow> v)"

text \<open>
  The two transports with the attributes their constructors set:
  \<open>NetworkEquipment ip port protocol client socket\<close> and
  \<open>SerialEquipment port baud_rate protocol data_bits parity stop_bits serial\<close>.
  \<open>client\<close>, \<open>socket\<close> and \<open>serial\<close> are \<open>None\<close> until \<open>connect\<close> stores the handle of
  the link it opened.
\<close>

datatype EquipmentInterface =
    NetworkEquipment pyval pyval pyval "nat option" "nat option"
  | SerialEquipment pyval pyval pyval pyval pyval pyval "nat option"

text \<open>
  What \<open>connect\<close> asks of the operating system: \<open>MLLPClient(ip, port)\<close>, a TCP socket
  connected to \<open>(ip, port)\<close>, or \<open>serial.Serial(port, baudrate, bytesize, parity, stopbits)\<close>.
  The environment answers with a handle or with the exception raised.
\<close>

datatype link_request =
    MLLPClient pyval pyval
  | SocketConnect pyval pyval
  | SerialOpen pyval pyval pyval pyval pyval

type_synonym opener = "link_request \<Rightarrow> exn + nat"

fun interface_connect :: "opener \<Rightarrow> EquipmentInterface \<Rightarrow> exn + EquipmentInterface" where
  "interface_connect opn (NetworkEquipment ip port protocol client socket) =
     (if py_eq protocol (PProto HL7) then
        and_then (opn (MLLPClient ip port))
          (\<lambda>h. Inr (NetworkEquipment ip port protocol (Some h) socket))
      else
        and_then (opn (SocketConnect ip port))
          (\<lambda>h. Inr (NetworkEquipment ip port protocol client (Some h))))"
| "interface_connect opn (SerialEquipment port baud_rate protocol data_bits parity stop_bits serial) =
     and_then (opn (SerialOpen port baud_rate data_bits parity stop_bits))
       (\<lambda>h. Inr (SerialEquipment port baud_rate protocol data_bits parity stop_bits (Some h)))"

record EquipmentManager =
  active_connections :: "int \<rightharpoonup> EquipmentInterface"

text \<open>The \<open>if\<close>/\<open>else\<close> of \<open>connect_equipment\<close> that builds the transport object.\<close>

definition make_interface :: "config \<Rightarrow> exn + EquipmentInterface" where
  "make_interface config =
     and_then (dict_item config ''connection_type'') (\<lambda>ct.
     if py_eq ct (PConn NETWORK) then
       and_then (dict_item config ''ip_address'') (\<lambda>ip.
       and_then (dict_item config ''port'') (\<lambda>port.
       and_then (dict_item config ''protocol'') (\<lambda>protocol.
       Inr (NetworkEquipment ip port protocol None None))))
     else
       and_then (dict_item config ''com_port'') (\<lambda>port.
       and_then (dict_item config ''baud_rate'') (\<lambda>baud_rate.
       and_then (dict_item config ''protocol'') (\<lambda>protocol.
       Inr (SerialEquipment port baud_rate protocol
              (dict_get config ''data_bits'' (PInt 8))
              (dict_get config ''parity'' (PStr ''N''))
              (dict_get config ''stop_bits'' (PInt 1)) None)))))"

text \<open>
  \<open>connect_equipment\<close>: build, connect, store under the id. An exception is logged and
  raised again; the registry is then as it was.
\<close>

definition connect_equipment ::
  "opener \<Rightarrow> EquipmentManager \<Rightarrow> int \<Rightarrow> config \<Rightarrow> exn + (EquipmentInterface \<times> EquipmentManager)" where
  "connect_equipment opn m equipment_id config =
     and_then (make_interface config) (\<lambda>interface.
     and_then (interface_connect opn interface) (\<lambda>connected.
     Inr (connected,
          m\<lparr>active_connections := (active_connections m)(equipment_id \<mapsto> connected)\<rparr>)))"

text \<open>
  \<open>disconnect_equipment\<close>: the transport's \<open>disconnect\<close> catches its own exceptions, so the
  entry is always removed when there is one.
\<close>

definition disconnect_equipment :: "EquipmentManager \<Rightarrow> int \<Rightarrow> EquipmentManager" where
  "disconnect_equipment m equipment_id =
     (if equipment_id \<in> dom (active_connections m)
      then m\<lparr>active_connections := (active_connections m)(equipment_id := None)\<rparr>
      else m)"

text \<open>
  \<open>send_command_to_equipment\<close>. What the transport answers to a command is the
  environment's: \<open>xchg interface command\<close> is the response, or the exception
  \<open>interface.send_command(command)\<close> raises. The wire lists the commands handed to a
  transport, oldest first.
\<close>

type_synonym wire = "(EquipmentInterface \<times> string) list"

definition send_command_to_equipment ::
  "(EquipmentInterface \<Rightarrow> string \<Rightarrow> exn + string) \<Rightarrow> EquipmentManager \<Rightarrow> wire \<Rightarrow> int \<Rightarrow> string
     \<Rightarrow> (exn + string) \<times> wire" where
  "send_command_to_equipment xchg m w equipment_id command =
     (case active_connections m equipment_id of
        None \<Rightarrow>
          (Inl (ValueError (''Equipment '' @ str_int equipment_id @ '' is not connected'')), w)
      | Some interface \<Rightarrow> (xchg interface command, w @ [(interface, command)]))"

section \<open>\<open>services/result_handler.py\<close>\<close>

text \<open>The columns of an \<open>Equipment\<close> row that the handler reads.\<close>

record Equipment =
  eq_id :: int
  eq_protocol :: ProtocolType
  eq_communication_type :: CommunicationType
  eq_result_endpoint :: "string option"
  eq_polling_interval :: "int option"

text \<open>\<open>db.query(Equipment).filter(Equipment.id == equipment_id).first()\<close>\<close>

definition query_equipment :: "Equipment list \<Rightarrow> int \<Rightarrow> Equipment option" where
  "query_equipment rows equipment_id = find (\<lambda>e. eq_id e = equipment_id) rows"

text \<open>
  The handler's \<open>_active_listeners\<close>: the task started for an equipment id, given by the
  arguments of the coroutine it runs.
\<close>

record ResultHandler =
  active_listeners :: "int \<rightharpoonup> (Equipment \<times> ResultProcessor)"

definition start_listening :: "Equipment list \<Rightarrow> ResultHandler \<Rightarrow> int \<Rightarrow> exn + ResultHandler" where
  "start_listening rows h equipment_id =
     (case query_equipment rows equipment_id of
        None \<Rightarrow> Inl (ValueError (''Equipment '' @ str_int equipment_id @ '' not found''))
      | Some equipment \<Rightarrow>
          if equipment_id \<in> dom (active_listeners h) then Inr h
          else
            and_then (create_processor (eq_protocol equipment) (eq_communication_type equipment)
                        (eq_result_endpoint equipment))
              (\<lambda>processor.
                 Inr (h\<lparr>active_listeners :=
                          (active_listeners h)(equipment_id \<mapsto> (equipment, processor))\<rparr>)))"

definition stop_listening :: "ResultHandler \<Rightarrow> int \<Rightarrow> ResultHandler" where
  "stop_listening h equipment_id =
     (if equipment_id \<in> dom (active_listeners h)
      then h\<lparr>active_listeners := (active_listeners h)(equipment_id := None)\<rparr>
      else h)"

text \<open>\<open>patient_id or ''\<close>\<close>

definition or_empty :: "string option \<Rightarrow> string" where
  "or_empty patient_id_arg = (case patient_id_arg of None \<Rightarrow> '''' | Some p \<Rightarrow> p)"

text \<open>
  \<open>_build_request_command\<close>. \<open>t1\<close>, \<open>t2\<close>, \<open>t3\<close> are the three readings of
  \<open>datetime.now().strftime('%Y%m%d%H%M%S')\<close> in the HL7 branch. The HL7-FHIR branch calls
  \<open>json.dumps\<close>, and the module does not import \<open>json\<close>.
\<close>

definition build_request_command ::
  "string \<Rightarrow> string \<Rightarrow> string \<Rightarrow> ProtocolType \<Rightarrow> string option \<Rightarrow> exn + string" where
  "build_request_command t1 t2 t3 protocol patient_id_arg =
     (if protocol = HL7 then
        Inr (''MSH|^~'' @ [CHR 0x5C] @ ''&|LIS|LAB|EQP|LAB|'' @ t1 @ ''||QRY^R02|''
             @ ''MSG'' @ t2 @ ''|P|2.5.1'' @ [CHR 0x0D]
             @ ''QRD|'' @ t3 @ ''|R|I|''
             @ ''QueryID|||RD|'' @ or_empty patient_id_arg @ ''|^^^||'' @ [CHR 0x0D])
      else if protocol = ASTM then
        Inr ([CHR 0x02] @ ''H|'' @ [CHR 0x5C] @ ''^&|||LIS|LAB||'' @ or_empty patient_id_arg
             @ ''||P|1'' @ [CHR 0x0D] @ ''Q|1|'' @ or_empty patient_id_arg @ ''^ALL||ALL''
             @ [CHR 0x0D, CHR 0x03, CHR 0x0D, CHR 0x0A])
      else if protocol = HL7_FHIR then
        Inl (NameError (''name '' @ [CHR 0x27] @ ''json'' @ [CHR 0x27] @ '' is not defined''))
      else
        Inl (ValueError (''Unsupported protocol for result request: ''
                         @ ProtocolType_value protocol)))"

text \<open>
  \<open>request_results\<close>. The two \<open>ValueError\<close>s are raised before the \<open>try\<close>; every exception
  of building or sending is caught there and turned into the result \<open>False\<close>.
\<close>

definition request_results ::
  "(EquipmentInterface \<Rightarrow> string \<Rightarrow> exn + string) \<Rightarrow> string \<Rightarrow> string \<Rightarrow> string
     \<Rightarrow> Equipment list \<Rightarrow> EquipmentManager \<Rightarrow> wire \<Rightarrow> int \<Rightarrow> string option
     \<Rightarrow> (exn + bool) \<times> wire" where
  "request_results xchg t1 t2 t3 rows m w equipment_id patient_id_arg =
     (case query_equipment rows equipment_id of
        None \<Rightarrow> (Inl (ValueError (''Equipment '' @ str_int equipment_id @ '' not found'')), w)
      | Some equipment \<Rightarrow>
          if eq_communication_type equipment = UNIDIRECTIONAL then
            (Inl (ValueError ''Cannot request results from unidirectional equipment''), w)
          else
            (case build_request_command t1 t2 t3 (eq_protocol equipment) patient_id_arg of
               Inl e \<Rightarrow> (Inr False, w)
             | Inr command \<Rightarrow>
                 (case send_command_to_equipment xchg m w equipment_id command of
                    (Inl e, w') \<Rightarrow> (Inr False, w')
                  | (Inr response, w') \<Rightarrow> (Inr True, w'))))"

subsection \<open>The listener\<close>

datatype log_entry = LogInfo string | LogWarning string | LogError string

text \<open>A \<open>TestResult\<close> row as \<open>_save_results\<close> fills it.\<close>

record TestResult =
  tr_equipment_id :: int
  tr_patient_id :: string
  tr_test_code :: string
  tr_test_name :: string
  tr_result_value :: string
  tr_units :: string
  tr_reference_range :: string
  tr_flags :: string
  tr_status :: string
  tr_result_datetime :: string
  tr_raw_message :: IncomingResult

text \<open>
  What a listener changes: the rows added to the database session and not yet committed,
  the rows committed, the log, and the seconds slept.
\<close>

record listener_state =
  pending :: "TestResult list"
  committed :: "TestResult list"
  logged :: "log_entry list"
  slept :: "int list"

text \<open>
  The processor handed to the listener is typed \<open>Any\<close>: the listener only calls its two
  methods, so these are what the model takes.
\<close>

record processor_methods =
  process_result :: "string \<Rightarrow> exn + IncomingResult"
  send_acknowledgment :: "string \<Rightarrow> exn + ack_result"

text \<open>
  The loop of \<open>_save_results\<close>: one row per result line. \<open>fromiso\<close> is
  \<open>datetime.fromisoformat\<close>, which raises \<open>ValueError\<close> on a text it does not accept.
\<close>

fun add_results ::
  "(string \<Rightarrow> exn + string) \<Rightarrow> Equipment \<Rightarrow> IncomingResult \<Rightarrow> ResultLine list
     \<Rightarrow> TestResult list \<Rightarrow> exn + TestResult list" where
  "add_results fromiso equipment processed [] rows = Inr rows"
| "add_results fromiso equipment processed (r # rest) rows =
     and_then (fromiso (message_datetime processed)) (\<lambda>dt.
       add_results fromiso equipment processed rest
         (rows @ [\<lparr>tr_equipment_id = eq_id equipment,
                   tr_patient_id = patient_id processed,
                   tr_test_code = test_code r,
                   tr_test_name = (case test_name r of None \<Rightarrow> '''' | Some n \<Rightarrow> n),
                   tr_result_value = rl_value r,
                   tr_units = units r,
                   tr_reference_range = reference_range r,
                   tr_flags = (case flags r of None \<Rightarrow> '''' | Some f \<Rightarrow> f),
                   tr_status = status r,
                   tr_result_datetime = dt,
                   tr_raw_message = processed\<rparr>]))"

text \<open>
  \<open>_save_results\<close>: add every row and commit; on an exception roll the session back, log,
  and raise again. The first component is the exception raised, if any.
\<close>

definition save_results ::
  "(string \<Rightarrow> exn + string) \<Rightarrow> Equipment \<Rightarrow> IncomingResult \<Rightarrow> listener_state
     \<Rightarrow> exn option \<times> listener_state" where
  "save_results fromiso equipment processed st =
     (case add_results fromiso equipment processed (results processed) (pending st) of
        Inl e \<Rightarrow>
          (Some e, st\<lparr>pending := [],
                      logged := logged st @ [LogError (''Error saving results: '' @ exn_str e)]\<rparr>)
      | Inr rows \<Rightarrow>
          (None, st\<lparr>pending := [], committed := committed st @ rows,
                    logged := logged st @
                      [LogInfo (''Saved results for equipment '' @ str_int (eq_id equipment)
                                @ '', patient '' @ patient_id processed)]\<rparr>))"

text \<open>
  The listener asks the manager for \<open>receive_data_from_equipment\<close>. \<open>EquipmentManager\<close>
  defines \<open>connect_equipment\<close>, \<open>disconnect_equipment\<close> and \<open>send_command_to_equipment\<close>
  and nothing else, so the attribute lookup raises.
\<close>

definition receive_data_from_equipment :: "EquipmentManager \<Rightarrow> int \<Rightarrow> exn + string" where
  "receive_data_from_equipment m equipment_id =
     Inl (AttributeError ([CHR 0x27] @ ''EquipmentManager'' @ [CHR 0x27]
            @ '' object has no attribute '' @ [CHR 0x27] @ ''receive_data_from_equipment''
            @ [CHR 0x27]))"

text \<open>The inner handler \<open>except Exception\<close>: log the error and sleep five seconds.\<close>

definition on_error :: "Equipment \<Rightarrow> exn \<Rightarrow> listener_state \<Rightarrow> listener_state" where
  "on_error equipment e st =
     st\<lparr>logged := logged st @
           [LogError (''Error processing results from equipment '' @ str_int (eq_id equipment)
                      @ '': '' @ exn_str e)],
        slept := slept st @ [5]\<rparr>"

text \<open>
  The body of the inner \<open>try\<close> of \<open>_listen_for_results\<close> after the call that fetches
  the data, whose outcome is the first argument, together with the inner handler.
\<close>

definition listen_pass ::
  "exn + string \<Rightarrow> (string \<Rightarrow> exn + string) \<Rightarrow> Equipment \<Rightarrow> processor_methods
     \<Rightarrow> listener_state \<Rightarrow> listener_state" where
  "listen_pass received fromiso equipment processor st =
     (case received of
        Inl e \<Rightarrow> on_error equipment e st
      | Inr raw_data \<Rightarrow>
          if raw_data = [] then
            (case eq_polling_interval equipment of
               None \<Rightarrow> st
             | Some secs \<Rightarrow> if secs = 0 then st else st\<lparr>slept := slept st @ [secs]\<rparr>)
          else
            (case process_result processor raw_data of
               Inl e \<Rightarrow> on_error equipment e st
             | Inr processed \<Rightarrow>
                 (case save_results fromiso equipment processed st of
                    (Some e, st') \<Rightarrow> on_error equipment e st'
                  | (None, st') \<Rightarrow>
                      if eq_communication_type equipment = BIDIRECTIONAL_WITH_ACK then
                        (case send_acknowledgment processor (message_id processed) of
                           Inl e \<Rightarrow> on_error equipment e st'
                         | Inr a \<Rightarrow> st')
                      else st')))"

text \<open>One pass of the body of \<open>while True\<close> in \<open>_listen_for_results\<close>.\<close>

definition listen_once ::
  "(string \<Rightarrow> exn + string) \<Rightarrow> EquipmentManager \<Rightarrow> Equipment \<Rightarrow> processor_methods
     \<Rightarrow> listener_state \<Rightarrow> listener_state" where
  "listen_once fromiso m equipment processor st =
     listen_pass (receive_data_from_equipment m (eq_id equipment)) fromiso equipment processor st"

text \<open>
  \<open>_listen_for_results\<close>. The loop has no exit of its own: the task ends when it is
  cancelled, which the outer handler logs. The first argument is the number of passes the
  loop completes before the cancellation arrives.
\<close>

fun listen_for_results ::
  "nat \<Rightarrow> (string \<Rightarrow> exn + string) \<Rightarrow> EquipmentManager \<Rightarrow> Equipment \<Rightarrow> processor_methods
     \<Rightarrow> listener_state \<Rightarrow> listener_state" where
  "listen_for_results 0 fromiso m equipment processor st =
     st\<lparr>logged := logged st @
           [LogInfo (''Listener for equipment '' @ str_int (eq_id equipment)
                     @ '' was cancelled'')]\<rparr>"
| "listen_for_results (Suc n) fromiso m equipment processor st =
     listen_for_results n fromiso m equipment processor
       (listen_once fromiso m equipment processor st)"

section \<open>Notions the properties are stated with\<close>

text \<open>The records of a message whose first character is \<open>R\<close>, in order.\<close>

definition result_records :: "string list \<Rightarrow> string list" where
  "result_records records =
     filter (\<lambda>r. case r of [] \<Rightarrow> False | c # _ \<Rightarrow> c = CHR ''R'') records"

text \<open>Whether a transport is the network one.\<close>

definition is_network :: "EquipmentInterface \<Rightarrow> bool" where
  "is_network i = (case i of NetworkEquipment _ _ _ _ _ \<Rightarrow> True | _ \<Rightarrow> False)"

text \<open>The text an acknowledgment carries; none when the method returned a boolean.\<close>

definition ack_text :: "ack_result \<Rightarrow> string" where
  "ack_text a = (case a of AckText s \<Rightarrow> s | AckBool b \<Rightarrow> [])"

section \<open>Concrete inputs\<close>

text \<open>The ASTM scenario of the specification, character by character.\<close>

definition astm_scenario :: string where
  "astm_scenario =
     [CHR 0x02] @ ''H|'' @ [CHR 0x5C] @ ''^&|||LIS|LAB||PT002||P|1'' @ [CHR 0x0D]
     @ ''P|1||PT002'' @ [CHR 0x0D]
     @ ''R|1|HGB|14.2|g/dL|12-16||F'' @ [CHR 0x0D, CHR 0x03, CHR 0x0D, CHR 0x0A]"

text \<open>
  The MSH and PID segments of the HL7 scenario of the specification, which are a message
  without OBX segment; the scenario; and the scenario with the two parts of OBX-3 written
  as repetitions (\<open>GLU~Glucose\<close>).
\<close>

definition hl7_header :: string where
  "hl7_header =
     ''MSH|^~'' @ [CHR 0x5C] @ ''&|LIS|LAB|EQP|LAB|20250101120000||ORU^R01|MSG1|P|2.5.1''
       @ [CHR 0x0D]
     @ ''PID|||PT001||Doe^John'' @ [CHR 0x0D]"

definition hl7_scenario :: string where
  "hl7_scenario =
     hl7_header @ ''OBX|1|NM|GLU^Glucose||95|mg/dL|70-110|N|||F'' @ [CHR 0x0D]"

definition hl7_scenario_repetitions :: string where
  "hl7_scenario_repetitions =
     hl7_header @ ''OBX|1|NM|GLU~Glucose||95|mg/dL|70-110|N|||F'' @ [CHR 0x0D]"

text \<open>An environment in which every link opens: the handle tells which kind was asked for.\<close>

definition example_opener :: opener where
  "example_opener req =
     (case req of
        MLLPClient _ _ \<Rightarrow> Inr 3
      | SocketConnect _ _ \<Rightarrow> Inr 4
      | SerialOpen _ _ _ _ _ \<Rightarrow> Inr 5)"

text \<open>
  The configuration as the endpoint \<open>/{equipment_id}/connect\<close> builds it from an equipment
  row: all nine keys. The first four take the network settings and leave the serial ones
  \<open>None\<close>; the last describes an instrument on a serial port behind an \<open>ETHERNET\<close>
  connection type.
\<close>

definition endpoint_config ::
  "ConnectionType \<Rightarrow> ProtocolType \<Rightarrow> pyval \<Rightarrow> pyval \<Rightarrow> pyval \<Rightarrow> pyval \<Rightarrow> config" where
  "endpoint_config ct p ip port com baud =
     map_of [(''connection_type'', PConn ct), (''protocol'', PProto p),
             (''ip_address'', ip), (''port'', port),
             (''com_port'', com), (''baud_rate'', baud),
             (''data_bits'', PNone), (''parity'', PNone), (''stop_bits'', PNone)]"

definition hl7_config :: config where
  "hl7_config = endpoint_config NETWORK HL7 (PStr ''10.0.0.5'') (PInt 2575) PNone PNone"

definition astm_config :: config where
  "astm_config = endpoint_config NETWORK ASTM (PStr ''10.0.0.5'') (PInt 4000) PNone PNone"

definition dicom_config :: config where
  "dicom_config = endpoint_config NETWORK DICOM (PStr ''10.0.0.7'') (PInt 104) PNone PNone"

definition ethernet_config :: config where
  "ethernet_config =
     map_of [(''connection_type'', PConn ETHERNET), (''protocol'', PProto ASTM),
             (''ip_address'', PNone), (''port'', PNone),
             (''com_port'', PStr ''COM3''), (''baud_rate'', PInt 9600),
             (''data_bits'', PInt 7), (''parity'', PStr ''E''), (''stop_bits'', PInt 2)]"

text \<open>The connections these configurations give, and a registry holding one entry.\<close>

definition first_connection :: EquipmentInterface where
  "first_connection = NetworkEquipment (PStr ''10.0.0.5'') (PInt 2575) (PProto HL7) (Some 3) None"

definition second_connection :: EquipmentInterface where
  "second_connection = NetworkEquipment (PStr ''10.0.0.5'') (PInt 4000) (PProto ASTM) None (Some 4)"

definition dicom_connection :: EquipmentInterface where
  "dicom_connection = NetworkEquipment (PStr ''10.0.0.7'') (PInt 104) (PProto DICOM) None (Some 4)"

definition ethernet_connection :: "nat option \<Rightarrow> EquipmentInterface" where
  "ethernet_connection handle =
     SerialEquipment (PStr ''COM3'') (PInt 9600) (PProto ASTM) (PInt 7) (PStr ''E'') (PInt 2)
       handle"

definition registry_of :: "int \<Rightarrow> EquipmentInterface \<Rightarrow> EquipmentManager" where
  "registry_of equipment_id c = \<lparr>active_connections = Map.empty(equipment_id \<mapsto> c)\<rparr>"

text \<open>Two equipment rows.\<close>

definition dicom_equipment :: Equipment where
  "dicom_equipment = \<lparr>eq_id = 2, eq_protocol = DICOM, eq_communication_type = BIDIRECTIONAL,
                        eq_result_endpoint = None, eq_polling_interval = None\<rparr>"

definition unidirectional_equipment :: Equipment where
  "unidirectional_equipment =
     \<lparr>eq_id = 1, eq_protocol = ASTM, eq_communication_type = UNIDIRECTIONAL,
      eq_result_endpoint = None, eq_polling_interval = Some 2\<rparr>"

text \<open>A transport that answers every command with the command, and an HTTP server that accepts.\<close>

definition echo_exchange :: "EquipmentInterface \<Rightarrow> string \<Rightarrow> exn + string" where
  "echo_exchange interface command = Inr command"

definition accepting_post :: "string \<Rightarrow> string \<Rightarrow> exn + nat" where
  "accepting_post url identifier = Inr 200"

section \<open>Properties\<close>

subsection \<open>The ASTM codec\<close>

lemmas astm_defs =
  ASTM_process_result_def strip_def astm_frame_chars_def astm_record_def astm_result_of_def
  astm_patient_of_def astm_header_of_def field_or_empty_def list_get_def and_then_def

text \<open>
  Claim C4, as amended. The scenario decodes to patient id \<open>PT002\<close> and exactly one result
  line with test code \<open>HGB\<close>, value \<open>14.2\<close>, units \<open>g/dL\<close> and reference range
  \<open>12-16\<close>; its flags and its status are empty. The record \<open>R|1|HGB|14.2|g/dL|12-16||F\<close> has
  eight fields, \<open>F\<close> is field 7, and the status is read from field 8.
\<close>

theorem astm_scenario_decoded:
  "ASTM_process_result now astm_scenario =
     Inr \<lparr>message_id = ''LAB'', message_datetime = now, patient_id = ''PT002'',
          patient_name = '''',
          results = [\<lparr>test_code = ''HGB'', test_name = None, rl_value = ''14.2'',
                      units = ''g/dL'', reference_range = ''12-16'', flags = Some '''',
                      status = ''''\<rparr>]\<rparr>"
  by (simp add: astm_scenario_def astm_defs)

text \<open>
  Claim C4, as stated, fails: the decoding succeeds, and the status of its one result line
  is not \<open>F\<close>.
\<close>

theorem astm_scenario_status_not_F:
  "\<not> isl (ASTM_process_result ''2025-01-01T12:00:00'' astm_scenario) \<and>
   map status (results (projr (ASTM_process_result ''2025-01-01T12:00:00'' astm_scenario)))
     \<noteq> [''F'']"
  by (simp add: astm_scenario_def astm_defs)

lemma field_or_empty_total:
  "field_or_empty flds i = Inr (if i < length flds then flds ! i else '''')"
  by (simp add: field_or_empty_def list_get_def)

lemma astm_result_of_total:
  "astm_result_of flds =
     Inr \<lparr>test_code = (if 2 < length flds then flds ! 2 else ''''), test_name = None,
          rl_value = (if 3 < length flds then flds ! 3 else ''''),
          units = (if 4 < length flds then flds ! 4 else ''''),
          reference_range = (if 5 < length flds then flds ! 5 else ''''),
          flags = Some (if 6 < length flds then flds ! 6 else ''''),
          status = (if 8 < length flds then flds ! 8 else '''')\<rparr>"
  by (simp add: astm_result_of_def field_or_empty_total and_then_def)

lemma astm_header_of_total:
  "astm_header_of flds =
     Inr \<lparr>h_sender = (if 4 < length flds then flds ! 4 else ''''),
          h_message_id = (if 5 < length flds then flds ! 5 else '''')\<rparr>"
  by (simp add: astm_header_of_def field_or_empty_total and_then_def)

lemma astm_patient_of_total:
  "astm_patient_of flds =
     Inr \<lparr>p_id = (if 3 < length flds then flds ! 3 else ''''),
          p_name = (if 4 < length flds then flds ! 4 else '''')\<rparr>"
  by (simp add: astm_patient_of_def field_or_empty_total and_then_def)

lemma astm_record_results:
  "\<exists>st'. astm_record st r = Inr st' \<and>
     map Inr (st_results st') =
       map Inr (st_results st) @ map (\<lambda>x. astm_result_of (split CHR ''|'' x)) (result_records [r])"
  by (cases r)
     (simp_all add: astm_record_def result_records_def Let_def and_then_def
        astm_result_of_total astm_header_of_total astm_patient_of_total del: split.simps)

lemma result_records_Cons:
  "result_records (r # rs) = result_records [r] @ result_records rs"
  by (simp add: result_records_def)

lemma astm_records_results:
  "\<exists>st'. astm_records st rs = Inr st' \<and>
     map Inr (st_results st') =
       map Inr (st_results st) @ map (\<lambda>x. astm_result_of (split CHR ''|'' x)) (result_records rs)"
proof (induction rs arbitrary: st)
  case Nil
  show ?case by (simp add: result_records_def)
next
  case (Cons r rs)
  obtain st1 where s1: "astm_record st r = Inr st1"
    and r1: "map Inr (st_results st1) =
       map Inr (st_results st) @ map (\<lambda>x. astm_result_of (split CHR ''|'' x)) (result_records [r])"
    using astm_record_results by blast
  obtain st2 where s2: "astm_records st1 rs = Inr st2"
    and r2: "map Inr (st_results st2) =
       map Inr (st_results st1) @ map (\<lambda>x. astm_result_of (split CHR ''|'' x)) (result_records rs)"
    using Cons.IH by blast
  have "astm_records st (r # rs) = Inr st2"
    using s1 s2 by (simp add: and_then_def)
  moreover have "map Inr (st_results st2) =
       map Inr (st_results st) @ map (\<lambda>x. astm_result_of (split CHR ''|'' x)) (result_records (r # rs))"
    using r1 r2 by (simp add: result_records_Cons[of r rs])
  ultimately show ?case by blast
qed

text \<open>
  Claim C8. Decoding an ASTM message never fails, whatever the text received. Its result
  lines are the lines built from the \<open>R\<close> records, in order. For the fields of any record,
  the header, the patient and the result line are always built, and every attribute whose
  field position lies beyond the end of the record is the empty string.
\<close>

theorem astm_missing_fields_are_empty:
  "(\<exists>r. ASTM_process_result now raw = Inr r \<and>
        map Inr (results r) =
          map (\<lambda>x. astm_result_of (split CHR ''|'' x))
            (result_records (split (CHR 0x0D) (strip astm_frame_chars raw))))
   \<and> (\<exists>l. astm_result_of flds = Inr l \<and>
        (length flds \<le> 2 \<longrightarrow> test_code l = '''') \<and>
        (length flds \<le> 3 \<longrightarrow> rl_value l = '''') \<and>
        (length flds \<le> 4 \<longrightarrow> units l = '''') \<and>
        (length flds \<le> 5 \<longrightarrow> reference_range l = '''') \<and>
        (length flds \<le> 6 \<longrightarrow> flags l = Some '''') \<and>
        (length flds \<le> 8 \<longrightarrow> status l = ''''))
   \<and> (\<exists>h. astm_header_of flds = Inr h \<and>
        (length flds \<le> 4 \<longrightarrow> h_sender h = '''') \<and>
        (length flds \<le> 5 \<longrightarrow> h_message_id h = ''''))
   \<and> (\<exists>p. astm_patient_of flds = Inr p \<and>
        (length flds \<le> 3 \<longrightarrow> p_id p = '''') \<and>
        (length flds \<le> 4 \<longrightarrow> p_name p = ''''))"
proof -
  let ?recs = "split (CHR 0x0D) (strip astm_frame_chars raw)"
  obtain st where st: "astm_records \<lparr>st_header = None, st_patient = None, st_results = []\<rparr> ?recs = Inr st"
    and rs: "map Inr (st_results st) =
       map (\<lambda>x. astm_result_of (split CHR ''|'' x)) (result_records ?recs)"
    using astm_records_results[of "\<lparr>st_header = None, st_patient = None, st_results = []\<rparr>" ?recs]
    by auto
  have a: "\<exists>r. ASTM_process_result now raw = Inr r \<and>
        map Inr (results r) =
          map (\<lambda>x. astm_result_of (split CHR ''|'' x)) (result_records ?recs)"
    using st rs by (simp add: ASTM_process_result_def Let_def)
  have b: "\<exists>l. astm_result_of flds = Inr l \<and>
        (length flds \<le> 2 \<longrightarrow> test_code l = '''') \<and>
        (length flds \<le> 3 \<longrightarrow> rl_value l = '''') \<and>
        (length flds \<le> 4 \<longrightarrow> units l = '''') \<and>
        (length flds \<le> 5 \<longrightarrow> reference_range l = '''') \<and>
        (length flds \<le> 6 \<longrightarrow> flags l = Some '''') \<and>
        (length flds \<le> 8 \<longrightarrow> status l = '''')"
    by (simp add: astm_result_of_total)
  have c: "\<exists>h. astm_header_of flds = Inr h \<and>
        (length flds \<le> 4 \<longrightarrow> h_sender h = '''') \<and>
        (length flds \<le> 5 \<longrightarrow> h_message_id h = '''')"
    by (simp add: astm_header_of_total)
  have d: "\<exists>p. astm_patient_of flds = Inr p \<and>
        (length flds \<le> 3 \<longrightarrow> p_id p = '''') \<and>
        (length flds \<le> 4 \<longrightarrow> p_name p = '''')"
    by (simp add: astm_patient_of_total)
  show ?thesis using a b c d by blast
qed

text \<open>The record \<open>R\<close> alone: one field, so every attribute is empty.\<close>

theorem astm_missing_fields_witness:
  "(\<exists>r. ASTM_process_result ''2025-01-01T12:00:00'' ''R'' = Inr r \<and>
        map Inr (results r) = [astm_result_of [''R'']])
   \<and> (\<exists>l. astm_result_of [''R''] = Inr l \<and> test_code l = '''' \<and> rl_value l = '''' \<and>
        units l = '''' \<and> reference_range l = '''' \<and> flags l = Some '''' \<and> status l = '''')
   \<and> (\<exists>h. astm_header_of [''R''] = Inr h \<and> h_sender h = '''' \<and> h_message_id h = '''')
   \<and> (\<exists>p. astm_patient_of [''R''] = Inr p \<and> p_id p = '''' \<and> p_name p = '''')"
  using astm_missing_fields_are_empty [of "''2025-01-01T12:00:00''" "''R''" "[''R'']"]
  by (simp add: result_records_def strip_def astm_frame_chars_def)

subsection \<open>Acknowledgments\<close>

text \<open>
  Claim C10. Unless the communication type is bidirectional-with-acknowledgment,
  \<open>send_acknowledgment\<close> of each of the three codecs returns \<open>True\<close>; the HL7 and ASTM codecs
  build no message and the FHIR codec issues no HTTP request, whatever the message id.
\<close>

theorem no_acknowledgment_unless_required:
  assumes "communication_type \<noteq> BIDIRECTIONAL_WITH_ACK"
  shows "HL7_send_acknowledgment ts communication_type msg_id = AckBool True \<and>
         ASTM_send_acknowledgment communication_type msg_id = AckBool True \<and>
         HL7FHIR_send_acknowledgment post communication_type endpoint msg_id = (AckBool True, [])"
  using assms
  by (simp add: HL7_send_acknowledgment_def ASTM_send_acknowledgment_def
        HL7FHIR_send_acknowledgment_def)

text \<open>A codec in plain bidirectional mode, message id \<open>MSG1\<close>.\<close>

theorem no_acknowledgment_witness:
  "BIDIRECTIONAL \<noteq> BIDIRECTIONAL_WITH_ACK \<and>
   HL7_send_acknowledgment ''20250101120000'' BIDIRECTIONAL ''MSG1'' = AckBool True \<and>
   ASTM_send_acknowledgment BIDIRECTIONAL ''MSG1'' = AckBool True \<and>
   HL7FHIR_send_acknowledgment accepting_post BIDIRECTIONAL ''http://fhir.example/api'' ''MSG1''
     = (AckBool True, [])"
  using no_acknowledgment_unless_required
          [of BIDIRECTIONAL "''20250101120000''" "''MSG1''" accepting_post
              "''http://fhir.example/api''"]
  by simp

text \<open>
  With the acknowledgment required, the FHIR codec does post, so the empty list of requests
  above is not an artefact of the model.
\<close>

lemma fhir_acknowledgment_is_posted:
  "HL7FHIR_send_acknowledgment accepting_post BIDIRECTIONAL_WITH_ACK ''http://fhir.example/api'' ''MSG1''
     = (AckBool True, [(''http://fhir.example/api/$process-message'', ''MSG1'')])"
  by (simp add: HL7FHIR_send_acknowledgment_def accepting_post_def)

text \<open>
  Claim C7, on the code. The acknowledgment the HL7 codec builds for the message id \<open>MSG1\<close>,
  in the mode that requires acknowledgments, cut into segments and fields: the MSH segment
  has message type \<open>ACK\<close> and the MSA segment has code \<open>AA\<close>, but the field after the code,
  where the acknowledged message id belongs, holds the text \<open>{message_id}\<close> with its braces.
  The second line of the message is a plain string literal, not an f-string. The message id
  occurs only as the control id of the acknowledgment itself, MSH field 10.
\<close>

theorem hl7_ack_msa_holds_placeholder:
  "map (split CHR ''|'')
     (split (CHR 0x0D)
        (ack_text (HL7_send_acknowledgment ''20250101120000'' BIDIRECTIONAL_WITH_ACK ''MSG1'')))
   = [[''MSH'', ''^~'' @ [CHR 0x5C] @ ''&'', ''LIS'', ''LAB'', ''EQP'', ''LAB'',
       ''20250101120000'', '''', ''ACK'', ''MSG1'', ''P'', ''2.5.1''],
      [''MSA'', ''AA'', ''{message_id}'', ''Message received successfully''],
      ['''']]"
  by (simp add: HL7_send_acknowledgment_def ack_text_def)

text \<open>The MSA segment is the same text for every message id and every timestamp.\<close>

lemma hl7_ack_msa_ignores_message_id:
  "\<exists>msh. HL7_send_acknowledgment ts BIDIRECTIONAL_WITH_ACK msg_id
            = AckText (msh @ ''MSA|AA|{message_id}|Message received successfully'' @ [CHR 0x0D])"
  by (simp add: HL7_send_acknowledgment_def)

subsection \<open>The HL7 codec\<close>

lemmas hl7_defs =
  HL7_process_result_def hl7_parse_def create_parse_plan_def hl7_segment_def hl7_segments_def
  find_from_def slice_to_found_def string_get_def list_get_def strip_def whitespace_def
  and_then_def item2_def text2_def obx_result_def

text \<open>What the package makes of the field \<open>GLU^Glucose\<close>: one repetition of two components.\<close>

lemma field_with_components:
  "hl7_split [(Field, CHR ''~''), (Repetition, CHR ''^''), (Component, CHR ''&'')] ''GLU^Glucose''
     = Inr (Container Field ''~''
              [Container Repetition ''^''
                 [Container Component ''&'' [Str ''GLU''],
                  Container Component ''&'' [Str ''Glucose'']]])"
  by (simp add: and_then_def)

text \<open>
  Claim C2, on the code. The HL7 scenario of the specification, a well-formed message with
  one OBX segment, is not decoded: \<open>process_result\<close> raises \<open>HTTPException(400)\<close>. The field
  \<open>GLU^Glucose\<close> holds one repetition, so \<open>obx[3][0]\<close> is that repetition, both components
  together, and \<open>obx[3][1]\<close>, meant as the second component, is out of range.
\<close>

theorem hl7_scenario_is_rejected:
  "HL7_process_result hl7_scenario
     = Inl (HTTPException 400 ''Error processing HL7 message: list index out of range'')"
  by (simp add: hl7_defs hl7_scenario_def hl7_header_def)

text \<open>
  The codec reads repetitions where the claim has components: the same message with OBX-3
  written \<open>GLU~Glucose\<close> is decoded, to one result line.
\<close>

lemma hl7_repetitions_are_read:
  "HL7_process_result hl7_scenario_repetitions
     = Inr \<lparr>message_id = ''MSG1'', message_datetime = ''20250101120000'',
            patient_id = ''PT001'', patient_name = ''Doe^John'',
            results = [\<lparr>test_code = ''GLU'', test_name = Some ''Glucose'', rl_value = ''95'',
                        units = ''mg/dL'', reference_range = ''70-110'', flags = Some ''N'',
                        status = ''F''\<rparr>]\<rparr>"
  by (simp add: hl7_defs hl7_scenario_repetitions_def hl7_header_def)

text \<open>A message without OBX segments is rejected too: \<open>Message.segments\<close> raises.\<close>

lemma hl7_without_obx_is_rejected:
  "HL7_process_result hl7_header
     = Inl (HTTPException 400
              (''Error processing HL7 message: '' @ [CHR 0x27] @ ''No OBX segments''
               @ [CHR 0x27]))"
  by (simp add: hl7_defs hl7_header_def)

subsection \<open>The connection registry\<close>

lemmas connect_defs =
  connect_equipment_def make_interface_def dict_item_def dict_get_def and_then_def py_eq_def
  endpoint_config_def

text \<open>
  Claim C1, as stated, fails: with equipment 1 connected, a second \<open>connect_equipment\<close> for
  equipment 1 succeeds, and the registry then holds the second connection in place of the
  first.
\<close>

theorem second_connect_replaces_first:
  "connect_equipment example_opener \<lparr>active_connections = Map.empty\<rparr> 1 hl7_config
     = Inr (first_connection, registry_of 1 first_connection) \<and>
   connect_equipment example_opener (registry_of 1 first_connection) 1 astm_config
     = Inr (second_connection, registry_of 1 second_connection) \<and>
   second_connection \<noteq> first_connection"
  by (simp add: connect_defs hl7_config_def astm_config_def example_opener_def
        first_connection_def second_connection_def registry_of_def)

text \<open>
  Claim C1, as amended. For an equipment id that has an entry, \<open>connect_equipment\<close> returns
  what it returns on an empty registry: the same connection or the same exception, so it
  never fails because of the entry. When it succeeds, the registry is the old one with the
  id mapped to the new connection: one entry for the id, the new connection in place of the
  original, every other id untouched. When it fails, no registry is returned: it stays as it
  was.
\<close>

theorem connect_again_overwrites:
  assumes "active_connections m equipment_id = Some original"
  shows "map_sum id fst (connect_equipment opn m equipment_id config)
           = map_sum id fst
               (connect_equipment opn \<lparr>active_connections = Map.empty\<rparr> equipment_id config)
         \<and> (\<forall>c m'. connect_equipment opn m equipment_id config = Inr (c, m') \<longrightarrow>
               active_connections m' = (active_connections m)(equipment_id \<mapsto> c))"
  by (auto simp: connect_equipment_def and_then_def split: sum.splits)

text \<open>Equipment 1, connected over HL7, connected again over ASTM.\<close>

theorem connect_again_overwrites_witness:
  "active_connections (registry_of 1 first_connection) 1 = Some first_connection \<and>
   map_sum id fst (connect_equipment example_opener (registry_of 1 first_connection) 1 astm_config)
     = map_sum id fst
         (connect_equipment example_opener \<lparr>active_connections = Map.empty\<rparr> 1 astm_config) \<and>
   connect_equipment example_opener (registry_of 1 first_connection) 1 astm_config
     = Inr (second_connection, registry_of 1 second_connection) \<and>
   active_connections (registry_of 1 second_connection)
     = (active_connections (registry_of 1 first_connection))(1 \<mapsto> second_connection)"
  using connect_again_overwrites [of "registry_of 1 first_connection" 1 first_connection
          example_opener astm_config]
  by (simp add: connect_defs astm_config_def example_opener_def
        first_connection_def second_connection_def registry_of_def)

lemma py_eq_NETWORK:
  "py_eq ct (PConn NETWORK) \<longleftrightarrow> ct = PConn NETWORK \<or> ct = PStr ''NETWORK''"
proof (cases ct)
  case (PConn c) then show ?thesis by (cases c) (simp_all add: py_eq_def)
next
  case (PProto p) then show ?thesis by (cases p) (simp_all add: py_eq_def)
qed (auto simp: py_eq_def)

lemma make_interface_kind:
  assumes "config ''connection_type'' = Some ct" "make_interface config = Inr i"
  shows "is_network i \<longleftrightarrow> py_eq ct (PConn NETWORK)"
  using assms
  by (auto simp: make_interface_def dict_item_def and_then_def is_network_def
           split: option.splits if_splits)

lemma interface_connect_kind:
  "interface_connect opn i = Inr c \<Longrightarrow> is_network c = is_network i"
  by (cases i) (auto simp: and_then_def is_network_def split: sum.splits if_splits)

text \<open>
  Claim C9. Take a configuration with the entries \<open>connection_type\<close>, \<open>protocol\<close>,
  \<open>com_port\<close>, \<open>baud_rate\<close>, \<open>data_bits\<close>, \<open>parity\<close> and \<open>stop_bits\<close>. If the connection type is
  not \<open>NETWORK\<close>, the transport built is the serial one and holds exactly these values of
  \<open>com_port\<close>, \<open>baud_rate\<close>, \<open>data_bits\<close>, \<open>parity\<close> and \<open>stop_bits\<close>; \<open>connect_equipment\<close> opens
  the serial port with them and registers the transport. Whatever \<open>connect_equipment\<close>
  returns is a network transport exactly when the connection type equals \<open>NETWORK\<close>, which
  only the enumeration member and its string value do.
\<close>

theorem non_network_config_builds_serial:
  assumes "config ''connection_type'' = Some ct"
    and "config ''protocol'' = Some protocol"
    and "config ''com_port'' = Some com_port"
    and "config ''baud_rate'' = Some baud_rate"
    and "config ''data_bits'' = Some data_bits"
    and "config ''parity'' = Some parity"
    and "config ''stop_bits'' = Some stop_bits"
  shows "(\<not> py_eq ct (PConn NETWORK) \<longrightarrow>
            make_interface config
              = Inr (SerialEquipment com_port baud_rate protocol data_bits parity stop_bits None) \<and>
            connect_equipment opn m equipment_id config =
              (case opn (SerialOpen com_port baud_rate data_bits parity stop_bits) of
                 Inl e \<Rightarrow> Inl e
               | Inr h \<Rightarrow>
                   Inr (SerialEquipment com_port baud_rate protocol data_bits parity stop_bits
                          (Some h),
                        m\<lparr>active_connections := (active_connections m)
                             (equipment_id \<mapsto>
                                SerialEquipment com_port baud_rate protocol data_bits parity
                                  stop_bits (Some h))\<rparr>)))
         \<and> (\<forall>c m'. connect_equipment opn m equipment_id config = Inr (c, m') \<longrightarrow>
               (is_network c \<longleftrightarrow> py_eq ct (PConn NETWORK)))
         \<and> (py_eq ct (PConn NETWORK) \<longleftrightarrow> ct = PConn NETWORK \<or> ct = PStr ''NETWORK'')"
proof -
  have a: "\<not> py_eq ct (PConn NETWORK) \<Longrightarrow>
             make_interface config
               = Inr (SerialEquipment com_port baud_rate protocol data_bits parity stop_bits None)"
    using assms
    by (simp add: make_interface_def dict_item_def dict_get_def and_then_def)
  have b: "\<not> py_eq ct (PConn NETWORK) \<Longrightarrow>
            connect_equipment opn m equipment_id config =
              (case opn (SerialOpen com_port baud_rate data_bits parity stop_bits) of
                 Inl e \<Rightarrow> Inl e
               | Inr h \<Rightarrow>
                   Inr (SerialEquipment com_port baud_rate protocol data_bits parity stop_bits
                          (Some h),
                        m\<lparr>active_connections := (active_connections m)
                             (equipment_id \<mapsto>
                                SerialEquipment com_port baud_rate protocol data_bits parity
                                  stop_bits (Some h))\<rparr>))"
    by (simp add: connect_equipment_def a and_then_def split: sum.splits)
  have c: "\<forall>c m'. connect_equipment opn m equipment_id config = Inr (c, m') \<longrightarrow>
               (is_network c \<longleftrightarrow> py_eq ct (PConn NETWORK))"
  proof (intro allI impI)
    fix c m'
    assume h: "connect_equipment opn m equipment_id config = Inr (c, m')"
    then obtain i where i: "make_interface config = Inr i"
      and ic: "interface_connect opn i = Inr c"
      by (auto simp: connect_equipment_def and_then_def split: sum.splits)
    show "is_network c \<longleftrightarrow> py_eq ct (PConn NETWORK)"
      using make_interface_kind [OF assms(1) i] interface_connect_kind [OF ic] by simp
  qed
  show ?thesis using a b c py_eq_NETWORK by blast
qed

text \<open>
  An \<open>ETHERNET\<close> configuration for an instrument on \<open>COM3\<close> at 9600 baud, seven data bits,
  even parity, two stop bits: that port is opened with those settings.
\<close>

theorem non_network_config_witness:
  "ethernet_config ''connection_type'' = Some (PConn ETHERNET) \<and>
   ethernet_config ''protocol'' = Some (PProto ASTM) \<and>
   ethernet_config ''com_port'' = Some (PStr ''COM3'') \<and>
   ethernet_config ''baud_rate'' = Some (PInt 9600) \<and>
   ethernet_config ''data_bits'' = Some (PInt 7) \<and>
   ethernet_config ''parity'' = Some (PStr ''E'') \<and>
   ethernet_config ''stop_bits'' = Some (PInt 2) \<and>
   \<not> py_eq (PConn ETHERNET) (PConn NETWORK) \<and>
   make_interface ethernet_config = Inr (ethernet_connection None) \<and>
   connect_equipment example_opener \<lparr>active_connections = Map.empty\<rparr> 3 ethernet_config
     = Inr (ethernet_connection (Some 5), registry_of 3 (ethernet_connection (Some 5))) \<and>
   \<not> is_network (ethernet_connection (Some 5))"
  using non_network_config_builds_serial
          [of ethernet_config "PConn ETHERNET" "PProto ASTM" "PStr ''COM3''" "PInt 9600"
              "PInt 7" "PStr ''E''" "PInt 2"
              example_opener "\<lparr>active_connections = Map.empty\<rparr>" 3]
  by (simp add: ethernet_config_def py_eq_def ethernet_connection_def example_opener_def
        registry_of_def is_network_def)

text \<open>
  An entry of \<open>data_bits\<close>, \<open>parity\<close> or \<open>stop_bits\<close> that the configuration lacks is read
  with its default: eight data bits, no parity, one stop bit.
\<close>

lemma serial_defaults_when_absent:
  assumes "config ''connection_type'' = Some ct" "\<not> py_eq ct (PConn NETWORK)"
    and "config ''protocol'' = Some protocol"
    and "config ''com_port'' = Some com_port"
    and "config ''baud_rate'' = Some baud_rate"
    and "config ''data_bits'' = None" "config ''parity'' = None" "config ''stop_bits'' = None"
  shows "make_interface config
           = Inr (SerialEquipment com_port baud_rate protocol (PInt 8) (PStr ''N'') (PInt 1) None)"
  using assms by (simp add: make_interface_def dict_item_def dict_get_def and_then_def)

text \<open>
  Claim C5, as stated, fails: \<open>connect_equipment\<close> for a DICOM equipment succeeds and
  registers the connection.
\<close>

theorem dicom_connect_succeeds:
  "connect_equipment example_opener \<lparr>active_connections = Map.empty\<rparr> 2 dicom_config
     = Inr (dicom_connection, registry_of 2 dicom_connection)"
  by (simp add: connect_defs dicom_config_def example_opener_def dicom_connection_def
        registry_of_def)

text \<open>
  Claim C5, as amended. For a protocol other than HL7, ASTM and HL7-FHIR,
  \<open>connect_equipment\<close> does not examine the protocol: it fails exactly when it fails for ASTM
  with the same settings. The protocol is rejected by \<open>start_listening\<close>: for an equipment
  found in the database that has no listener yet, it raises the \<open>ValueError\<close> of
  \<open>create_processor\<close>, and no listener is created, so no message is ever processed.
\<close>

theorem unsupported_protocol_fails_at_start_listening:
  assumes "p \<notin> {HL7, ASTM, HL7_FHIR}"
  shows "isl (connect_equipment opn m equipment_id (config(''protocol'' \<mapsto> PProto p)))
           = isl (connect_equipment opn m equipment_id (config(''protocol'' \<mapsto> PProto ASTM)))
         \<and> (\<forall>equipment. query_equipment rows equipment_id = Some equipment \<and>
                eq_protocol equipment = p \<and> equipment_id \<notin> dom (active_listeners h) \<longrightarrow>
              start_listening rows h equipment_id
                = Inl (ValueError (''Unsupported protocol: '' @ ProtocolType_value p)))"
proof -
  have np: "\<not> py_eq (PProto p) (PProto HL7)"
    using assms by (cases p) (simp_all add: py_eq_def)
  have na: "\<not> py_eq (PProto ASTM) (PProto HL7)"
    by (simp add: py_eq_def)
  have a: "isl (connect_equipment opn m equipment_id (config(''protocol'' \<mapsto> PProto p)))
           = isl (connect_equipment opn m equipment_id (config(''protocol'' \<mapsto> PProto ASTM)))"
    using np na
    by (auto simp: connect_equipment_def make_interface_def dict_item_def dict_get_def
          and_then_def split: option.splits sum.splits)
  have b: "\<forall>equipment. query_equipment rows equipment_id = Some equipment \<and>
                eq_protocol equipment = p \<and> equipment_id \<notin> dom (active_listeners h) \<longrightarrow>
              start_listening rows h equipment_id
                = Inl (ValueError (''Unsupported protocol: '' @ ProtocolType_value p))"
    using assms by (auto simp: start_listening_def create_processor_def and_then_def)
  show ?thesis using a b by blast
qed

text \<open>A DICOM equipment: connected, then refused by \<open>start_listening\<close>.\<close>

theorem unsupported_protocol_witness:
  "DICOM \<notin> {HL7, ASTM, HL7_FHIR} \<and>
   isl (connect_equipment example_opener \<lparr>active_connections = Map.empty\<rparr> 2
          (dicom_config(''protocol'' \<mapsto> PProto DICOM)))
     = isl (connect_equipment example_opener \<lparr>active_connections = Map.empty\<rparr> 2
          (dicom_config(''protocol'' \<mapsto> PProto ASTM))) \<and>
   query_equipment [dicom_equipment] 2 = Some dicom_equipment \<and>
   eq_protocol dicom_equipment = DICOM \<and>
   2 \<notin> dom (active_listeners \<lparr>active_listeners = Map.empty\<rparr>) \<and>
   start_listening [dicom_equipment] \<lparr>active_listeners = Map.empty\<rparr> 2
     = Inl (ValueError ''Unsupported protocol: DICOM'')"
  using unsupported_protocol_fails_at_start_listening
          [of DICOM example_opener "\<lparr>active_connections = Map.empty\<rparr>" 2 dicom_config
              "[dicom_equipment]" "\<lparr>active_listeners = Map.empty\<rparr>"]
  by (simp add: query_equipment_def dicom_equipment_def)

subsection \<open>Requests for results\<close>

text \<open>
  Claim C3. For an equipment found in the database whose communication type is
  unidirectional, \<open>request_results\<close> raises the \<open>ValueError\<close> that rejects the operation, and
  the wire is as before: no command is handed to a transport. This holds for every patient
  id, every registry and every behaviour of the transports.
\<close>

theorem unidirectional_request_fails:
  assumes "query_equipment rows equipment_id = Some equipment"
    and "eq_communication_type equipment = UNIDIRECTIONAL"
  shows "request_results xchg t1 t2 t3 rows m w equipment_id patient_id_arg
           = (Inl (ValueError ''Cannot request results from unidirectional equipment''), w)"
  using assms by (simp add: request_results_def)

text \<open>A unidirectional ASTM equipment, connected, asked for the results of \<open>PT002\<close>.\<close>

theorem unidirectional_request_witness:
  "query_equipment [unidirectional_equipment] 1 = Some unidirectional_equipment \<and>
   eq_communication_type unidirectional_equipment = UNIDIRECTIONAL \<and>
   request_results echo_exchange ''20250101120000'' ''20250101120000'' ''20250101120000''
       [unidirectional_equipment] (registry_of 1 second_connection) [] 1 (Some ''PT002'')
     = (Inl (ValueError ''Cannot request results from unidirectional equipment''), [])"
  using unidirectional_request_fails
          [of "[unidirectional_equipment]" 1 unidirectional_equipment echo_exchange
              "''20250101120000''" "''20250101120000''" "''20250101120000''"
              "registry_of 1 second_connection" "[]" "Some ''PT002''"]
  by (simp add: query_equipment_def unidirectional_equipment_def)

text \<open>With a bidirectional equipment the request does go out on the wire.\<close>

lemma bidirectional_request_is_sent:
  "request_results echo_exchange ''1'' ''2'' ''3''
       [unidirectional_equipment\<lparr>eq_communication_type := BIDIRECTIONAL\<rparr>] (registry_of 1 second_connection) [] 1 None
     = (Inr True, [(second_connection, [CHR 0x02] @ ''H|'' @ [CHR 0x5C] @ ''^&|||LIS|LAB||||P|1'' @ [CHR 0x0D] @ ''Q|1|^ALL||ALL'' @ [CHR 0x0D, CHR 0x03, CHR 0x0D, CHR 0x0A])])"
  by (simp add: request_results_def query_equipment_def unidirectional_equipment_def build_request_command_def
      send_command_to_equipment_def registry_of_def echo_exchange_def or_empty_def)

subsection \<open>The listener\<close>

text \<open>
  Had the call that fetches the data returned a payload, a decode error would be caught by
  the inner handler: logged, followed by a sleep of five seconds, and the loop goes on.
\<close>

lemma decode_error_is_caught:
  "raw_data \<noteq> [] \<Longrightarrow> process_result processor raw_data = Inl e \<Longrightarrow>
   listen_pass (Inr raw_data) fromiso equipment processor st = on_error equipment e st"
  by (simp add: listen_pass_def)

text \<open>As the code stands, every pass ends in the handler with the \<open>AttributeError\<close>.\<close>

lemma listen_once_fails:
  "listen_once fromiso m equipment processor st =
     on_error equipment
       (AttributeError ([CHR 0x27] @ ''EquipmentManager'' @ [CHR 0x27]
            @ '' object has no attribute '' @ [CHR 0x27] @ ''receive_data_from_equipment''
            @ [CHR 0x27])) st"
  by (simp add: listen_once_def listen_pass_def receive_data_from_equipment_def)

text \<open>
  Claim C6, on the code. However many passes the loop makes, and whatever the processor
  would decode, the listener adds no row to the session and commits none: each pass logs
  the \<open>AttributeError\<close> of the missing method and sleeps five seconds. No message, malformed
  or well formed, is ever decoded or persisted.
\<close>

theorem listener_never_decodes_or_saves:
  "pending (listen_for_results n fromiso m equipment processor st) = pending st \<and>
   committed (listen_for_results n fromiso m equipment processor st) = committed st \<and>
   slept (listen_for_results n fromiso m equipment processor st) = slept st @ replicate n 5 \<and>
   logged (listen_for_results n fromiso m equipment processor st) =
     logged st
     @ replicate n
         (LogError (''Error processing results from equipment '' @ str_int (eq_id equipment)
            @ '': '' @ [CHR 0x27] @ ''EquipmentManager'' @ [CHR 0x27]
            @ '' object has no attribute '' @ [CHR 0x27] @ ''receive_data_from_equipment''
            @ [CHR 0x27]))
     @ [LogInfo (''Listener for equipment '' @ str_int (eq_id equipment) @ '' was cancelled'')]"
proof (induction n arbitrary: st)
  case 0
  show ?case by simp
next
  case (Suc n)
  show ?case
    by (simp add: Suc.IH listen_once_fails on_error_def replicate_app_Cons_same del: str_nat.simps)
qed

end
